theory Spec2Isabelle
  imports Complex_Main
begin

section \<open>Joint definitions of \<open>include/box2d/joint_types.h\<close>\<close>

text \<open>
  The header declares one enumeration and seven plain structs. A struct declaration is
  embedded as the list of its members, in declaration order: each member with its C type,
  its name and what its doc comment says about the frame or the unit of the value.
\<close>

datatype b2JointType =
    b2_distanceJoint
  | b2_motorJoint
  | b2_mouseJoint
  | b2_prismaticJoint
  | b2_revoluteJoint
  | b2_weldJoint
  | b2_wheelJoint

datatype ctype = C_b2BodyId | C_b2Vec2 | C_float | C_bool | C_void_ptr

text \<open>
  The frame or unit a member's doc comment gives: \<open>RelativeToBodyA\<close> is
  "relative to bodyA's origin", \<open>InBodyA\<close> is "in bodyA" / "in bodyA's frame",
  \<open>WorldSpace\<close> is "in world space"; \<open>Linear\<close> and \<open>Rotational\<close> are the kind
  the comment of an enable flag gives its spring, limit or motor; \<open>Undocumented\<close> when the
  comment names none of these.
\<close>

datatype doc_note =
    Undocumented
  | RelativeToBodyA
  | RelativeToBodyB
  | InBodyA
  | WorldSpace
  | Hertz
  | NonDimensional
  | Radians
  | Newtons
  | NewtonMeters
  | MetersPerSecond
  | RadiansPerSecond
  | Linear
  | Rotational

datatype member = Member (mtype: ctype) (mname: string) (mnote: doc_note)

definition b2DistanceJointDef_members :: "member list" where
  "b2DistanceJointDef_members =
    [ Member C_b2BodyId ''bodyIdA'' Undocumented,
      Member C_b2BodyId ''bodyIdB'' Undocumented,
      Member C_b2Vec2 ''localAnchorA'' RelativeToBodyA,
      Member C_b2Vec2 ''localAnchorB'' RelativeToBodyB,
      Member C_float ''length'' Undocumented,
      Member C_bool ''enableSpring'' Undocumented,
      Member C_float ''hertz'' Hertz,
      Member C_float ''dampingRatio'' NonDimensional,
      Member C_bool ''enableLimit'' Undocumented,
      Member C_float ''minLength'' Undocumented,
      Member C_float ''maxLength'' Undocumented,
      Member C_bool ''enableMotor'' Undocumented,
      Member C_float ''maxMotorForce'' Newtons,
      Member C_float ''motorSpeed'' MetersPerSecond,
      Member C_bool ''collideConnected'' Undocumented,
      Member C_void_ptr ''userData'' Undocumented ]"

definition b2MotorJointDef_members :: "member list" where
  "b2MotorJointDef_members =
    [ Member C_b2BodyId ''bodyIdA'' Undocumented,
      Member C_b2BodyId ''bodyIdB'' Undocumented,
      Member C_b2Vec2 ''linearOffset'' InBodyA,
      Member C_float ''angularOffset'' Radians,
      Member C_float ''maxForce'' Newtons,
      Member C_float ''maxTorque'' NewtonMeters,
      Member C_float ''correctionFactor'' Undocumented,
      Member C_bool ''collideConnected'' Undocumented,
      Member C_void_ptr ''userData'' Undocumented ]"

definition b2MouseJointDef_members :: "member list" where
  "b2MouseJointDef_members =
    [ Member C_b2BodyId ''bodyIdA'' Undocumented,
      Member C_b2BodyId ''bodyIdB'' Undocumented,
      Member C_b2Vec2 ''target'' WorldSpace,
      Member C_float ''hertz'' Hertz,
      Member C_float ''dampingRatio'' NonDimensional,
      Member C_float ''maxForce'' Newtons,
      Member C_bool ''collideConnected'' Undocumented,
      Member C_void_ptr ''userData'' Undocumented ]"

definition b2PrismaticJointDef_members :: "member list" where
  "b2PrismaticJointDef_members =
    [ Member C_b2BodyId ''bodyIdA'' Undocumented,
      Member C_b2BodyId ''bodyIdB'' Undocumented,
      Member C_b2Vec2 ''localAnchorA'' RelativeToBodyA,
      Member C_b2Vec2 ''localAnchorB'' RelativeToBodyB,
      Member C_b2Vec2 ''localAxisA'' InBodyA,
      Member C_float ''referenceAngle'' Undocumented,
      Member C_bool ''enableSpring'' Linear,
      Member C_float ''hertz'' Hertz,
      Member C_float ''dampingRatio'' NonDimensional,
      Member C_bool ''enableLimit'' Undocumented,
      Member C_float ''lowerTranslation'' Undocumented,
      Member C_float ''upperTranslation'' Undocumented,
      Member C_bool ''enableMotor'' Undocumented,
      Member C_float ''maxMotorForce'' Newtons,
      Member C_float ''motorSpeed'' MetersPerSecond,
      Member C_bool ''collideConnected'' Undocumented,
      Member C_void_ptr ''userData'' Undocumented ]"

definition b2RevoluteJointDef_members :: "member list" where
  "b2RevoluteJointDef_members =
    [ Member C_b2BodyId ''bodyIdA'' Undocumented,
      Member C_b2BodyId ''bodyIdB'' Undocumented,
      Member C_b2Vec2 ''localAnchorA'' RelativeToBodyA,
      Member C_b2Vec2 ''localAnchorB'' RelativeToBodyB,
      Member C_float ''referenceAngle'' Radians,
      Member C_bool ''enableSpring'' Rotational,
      Member C_float ''hertz'' Hertz,
      Member C_float ''dampingRatio'' NonDimensional,
      Member C_bool ''enableLimit'' Undocumented,
      Member C_float ''lowerAngle'' Radians,
      Member C_float ''upperAngle'' Radians,
      Member C_bool ''enableMotor'' Undocumented,
      Member C_float ''maxMotorTorque'' NewtonMeters,
      Member C_float ''motorSpeed'' RadiansPerSecond,
      Member C_float ''drawSize'' Undocumented,
      Member C_bool ''collideConnected'' Undocumented,
      Member C_void_ptr ''userData'' Undocumented ]"

definition b2WeldJointDef_members :: "member list" where
  "b2WeldJointDef_members =
    [ Member C_b2BodyId ''bodyIdA'' Undocumented,
      Member C_b2BodyId ''bodyIdB'' Undocumented,
      Member C_b2Vec2 ''localAnchorA'' RelativeToBodyA,
      Member C_b2Vec2 ''localAnchorB'' RelativeToBodyB,
      Member C_float ''referenceAngle'' Radians,
      Member C_float ''linearHertz'' Hertz,
      Member C_float ''angularHertz'' Hertz,
      Member C_float ''linearDampingRatio'' NonDimensional,
      Member C_float ''angularDampingRatio'' NonDimensional,
      Member C_bool ''collideConnected'' Undocumented,
      Member C_void_ptr ''userData'' Undocumented ]"

definition b2WheelJointDef_members :: "member list" where
  "b2WheelJointDef_members =
    [ Member C_b2BodyId ''bodyIdA'' Undocumented,
      Member C_b2BodyId ''bodyIdB'' Undocumented,
      Member C_b2Vec2 ''localAnchorA'' RelativeToBodyA,
      Member C_b2Vec2 ''localAnchorB'' RelativeToBodyB,
      Member C_b2Vec2 ''localAxisA'' InBodyA,
      Member C_bool ''enableSpring'' Linear,
      Member C_float ''hertz'' Hertz,
      Member C_float ''dampingRatio'' NonDimensional,
      Member C_bool ''enableLimit'' Linear,
      Member C_float ''lowerTranslation'' Undocumented,
      Member C_float ''upperTranslation'' Undocumented,
      Member C_bool ''enableMotor'' Rotational,
      Member C_float ''maxMotorTorque'' NewtonMeters,
      Member C_float ''motorSpeed'' RadiansPerSecond,
      Member C_bool ''collideConnected'' Undocumented,
      Member C_void_ptr ''userData'' Undocumented ]"

text \<open>The definition struct that belongs to each value of the enumeration.\<close>

fun b2JointDef_members :: "b2JointType \<Rightarrow> member list" where
  "b2JointDef_members b2_distanceJoint = b2DistanceJointDef_members"
| "b2JointDef_members b2_motorJoint = b2MotorJointDef_members"
| "b2JointDef_members b2_mouseJoint = b2MouseJointDef_members"
| "b2JointDef_members b2_prismaticJoint = b2PrismaticJointDef_members"
| "b2JointDef_members b2_revoluteJoint = b2RevoluteJointDef_members"
| "b2JointDef_members b2_weldJoint = b2WeldJointDef_members"
| "b2JointDef_members b2_wheelJoint = b2WheelJointDef_members"

text \<open>Looking a member up by name, and the members documented as body-local anchors.\<close>

definition member_named :: "string \<Rightarrow> member list \<Rightarrow> member option" where
  "member_named n ms = find (\<lambda>m. mname m = n) ms"

definition local_anchor_members :: "member list \<Rightarrow> member list" where
  "local_anchor_members ms =
     filter (\<lambda>m. mtype m = C_b2Vec2 \<and> (mnote m = RelativeToBodyA \<or> mnote m = RelativeToBodyB)) ms"

section \<open>Values shared by the header and the sample\<close>

text \<open>
  A C \<open>float\<close> is modelled by a real number: arithmetic is exact, and every input is a
  finite number. The one operation of the sample that can leave the finite numbers is the
  division by \<open>scale\<close>; \<open>float_div\<close> makes that explicit (\<open>None\<close> when the divisor is
  zero, where the machine gives an infinity).
\<close>

definition float_div :: "real \<Rightarrow> real \<Rightarrow> real option" where
  "float_div a b = (if b = 0 then None else Some (a / b))"

text \<open>
  Modelled from the spec: \<open>b2Vec2\<close> and \<open>b2Add\<close> are declared in the math headers,
  which are not among the sources. \<open>b2Vec2\<close> is the pair of coordinates \<open>{x, y}\<close>,
  \<open>b2Add\<close> the sum by coordinates; the difference \<open>b2Sub\<close> serves the body accessor.
\<close>

datatype b2Vec2 = b2Vec2 real real

fun b2Add :: "b2Vec2 \<Rightarrow> b2Vec2 \<Rightarrow> b2Vec2" where
  "b2Add (b2Vec2 ax ay) (b2Vec2 bx by) = b2Vec2 (ax + bx) (ay + by)"

fun b2Sub :: "b2Vec2 \<Rightarrow> b2Vec2 \<Rightarrow> b2Vec2" where
  "b2Sub (b2Vec2 ax ay) (b2Vec2 bx by) = b2Vec2 (ax - bx) (ay - by)"

text \<open>
  Modelled from the spec: the id types and \<open>B2_IS_NULL\<close> are declared in a header that is
  not among the sources. The spec describes handles as integers into an arena; an id is
  modelled by its index, the value-initialised id \<open>{}\<close> has index 0 and is the null id.
  The type parameter only keeps body ids and joint ids apart.
\<close>

datatype 'k b2Id = b2Id (index1: nat)

datatype body_kind = Body_kind
datatype joint_kind = Joint_kind

type_synonym b2BodyId = "body_kind b2Id"
type_synonym b2JointId = "joint_kind b2Id"

definition B2_IS_NULL :: "'k b2Id \<Rightarrow> bool" where
  "B2_IS_NULL i = (index1 i = 0)"

text \<open>An opaque \<open>void*\<close> is modelled by its address.\<close>

type_synonym void_ptr = nat

subsection \<open>The definition structs as records\<close>

text \<open>
  The seven structs again, now as records that carry values. The member \<open>length\<close> of
  \<open>b2DistanceJointDef\<close> is written \<open>length'\<close>.
\<close>

record b2DistanceJointDef =
  bodyIdA :: b2BodyId
  bodyIdB :: b2BodyId
  localAnchorA :: b2Vec2
  localAnchorB :: b2Vec2
  length' :: real
  enableSpring :: bool
  hertz :: real
  dampingRatio :: real
  enableLimit :: bool
  minLength :: real
  maxLength :: real
  enableMotor :: bool
  maxMotorForce :: real
  motorSpeed :: real
  collideConnected :: bool
  userData :: void_ptr

record b2MotorJointDef =
  bodyIdA :: b2BodyId
  bodyIdB :: b2BodyId
  linearOffset :: b2Vec2
  angularOffset :: real
  maxForce :: real
  maxTorque :: real
  correctionFactor :: real
  collideConnected :: bool
  userData :: void_ptr

record b2MouseJointDef =
  bodyIdA :: b2BodyId
  bodyIdB :: b2BodyId
  target :: b2Vec2
  hertz :: real
  dampingRatio :: real
  maxForce :: real
  collideConnected :: bool
  userData :: void_ptr

record b2PrismaticJointDef =
  bodyIdA :: b2BodyId
  bodyIdB :: b2BodyId
  localAnchorA :: b2Vec2
  localAnchorB :: b2Vec2
  localAxisA :: b2Vec2
  referenceAngle :: real
  enableSpring :: bool
  hertz :: real
  dampingRatio :: real
  enableLimit :: bool
  lowerTranslation :: real
  upperTranslation :: real
  enableMotor :: bool
  maxMotorForce :: real
  motorSpeed :: real
  collideConnected :: bool
  userData :: void_ptr

record b2RevoluteJointDef =
  bodyIdA :: b2BodyId
  bodyIdB :: b2BodyId
  localAnchorA :: b2Vec2
  localAnchorB :: b2Vec2
  referenceAngle :: real
  enableSpring :: bool
  hertz :: real
  dampingRatio :: real
  enableLimit :: bool
  lowerAngle :: real
  upperAngle :: real
  enableMotor :: bool
  maxMotorTorque :: real
  motorSpeed :: real
  drawSize :: real
  collideConnected :: bool
  userData :: void_ptr

record b2WeldJointDef =
  bodyIdA :: b2BodyId
  bodyIdB :: b2BodyId
  localAnchorA :: b2Vec2
  localAnchorB :: b2Vec2
  referenceAngle :: real
  linearHertz :: real
  angularHertz :: real
  linearDampingRatio :: real
  angularDampingRatio :: real
  collideConnected :: bool
  userData :: void_ptr

record b2WheelJointDef =
  bodyIdA :: b2BodyId
  bodyIdB :: b2BodyId
  localAnchorA :: b2Vec2
  localAnchorB :: b2Vec2
  localAxisA :: b2Vec2
  enableSpring :: bool
  hertz :: real
  dampingRatio :: real
  enableLimit :: bool
  lowerTranslation :: real
  upperTranslation :: real
  enableMotor :: bool
  maxMotorTorque :: real
  motorSpeed :: real
  collideConnected :: bool
  userData :: void_ptr

text \<open>A joint definition of any of the seven types, tagged as \<open>b2JointType\<close> tags them.\<close>

datatype b2JointDef =
    DistanceDef b2DistanceJointDef
  | MotorDef b2MotorJointDef
  | MouseDef b2MouseJointDef
  | PrismaticDef b2PrismaticJointDef
  | RevoluteDef b2RevoluteJointDef
  | WeldDef b2WeldJointDef
  | WheelDef b2WheelJointDef

fun jointDef_type :: "b2JointDef \<Rightarrow> b2JointType" where
  "jointDef_type (DistanceDef d) = b2_distanceJoint"
| "jointDef_type (MotorDef d) = b2_motorJoint"
| "jointDef_type (MouseDef d) = b2_mouseJoint"
| "jointDef_type (PrismaticDef d) = b2_prismaticJoint"
| "jointDef_type (RevoluteDef d) = b2_revoluteJoint"
| "jointDef_type (WeldDef d) = b2_weldJoint"
| "jointDef_type (WheelDef d) = b2_wheelJoint"

fun jointDef_bodyIdA :: "b2JointDef \<Rightarrow> b2BodyId" where
  "jointDef_bodyIdA (DistanceDef d) = b2DistanceJointDef.bodyIdA d"
| "jointDef_bodyIdA (MotorDef d) = b2MotorJointDef.bodyIdA d"
| "jointDef_bodyIdA (MouseDef d) = b2MouseJointDef.bodyIdA d"
| "jointDef_bodyIdA (PrismaticDef d) = b2PrismaticJointDef.bodyIdA d"
| "jointDef_bodyIdA (RevoluteDef d) = b2RevoluteJointDef.bodyIdA d"
| "jointDef_bodyIdA (WeldDef d) = b2WeldJointDef.bodyIdA d"
| "jointDef_bodyIdA (WheelDef d) = b2WheelJointDef.bodyIdA d"

fun jointDef_bodyIdB :: "b2JointDef \<Rightarrow> b2BodyId" where
  "jointDef_bodyIdB (DistanceDef d) = b2DistanceJointDef.bodyIdB d"
| "jointDef_bodyIdB (MotorDef d) = b2MotorJointDef.bodyIdB d"
| "jointDef_bodyIdB (MouseDef d) = b2MouseJointDef.bodyIdB d"
| "jointDef_bodyIdB (PrismaticDef d) = b2PrismaticJointDef.bodyIdB d"
| "jointDef_bodyIdB (RevoluteDef d) = b2RevoluteJointDef.bodyIdB d"
| "jointDef_bodyIdB (WeldDef d) = b2WeldJointDef.bodyIdB d"
| "jointDef_bodyIdB (WheelDef d) = b2WheelJointDef.bodyIdB d"

section \<open>The engine the sample calls\<close>

text \<open>
  \<open>samples/car.cpp\<close> calls the engine through its public functions, none of which
  is among the sources. They are modelled from the spec, on an explicit world state that
  is passed through every call. A call that the spec lets fail returns \<open>Inl\<close> of the
  error; the sample has no way to handle an error, so an error ends the operation.
\<close>

datatype error = AssertionFailed | InvalidJointDefinition | InvalidHandle | JointNotFound

definition and_then :: "error + 'a \<Rightarrow> ('a \<Rightarrow> error + 'b) \<Rightarrow> error + 'b" where
  "and_then r f = (case r of Inl e \<Rightarrow> Inl e | Inr v \<Rightarrow> f v)"

text \<open>
  Modelled from the spec: the body type and the body and shape definitions belong to the
  external body and shape lifecycle and are declared in a header that is not among the
  sources. Of the two definitions only the members that the sample assigns are kept. The
  density is the result of a division, hence optional (see \<open>float_div\<close>).
\<close>

datatype b2BodyType = b2_staticBody | b2_kinematicBody | b2_dynamicBody

record b2BodyDef =
  type' :: b2BodyType
  position :: b2Vec2

record b2ShapeDef =
  density :: "real option"
  friction :: real

text \<open>
  Modelled from the spec: hull and shape construction is external and not among the
  sources. \<open>b2ComputeHull\<close> and \<open>b2MakePolygon\<close> are kept symbolic: the value records
  the function applied and its arguments. \<open>b2Circle\<close> is the struct \<open>{center, radius}\<close>.
\<close>

datatype b2Hull = b2ComputeHull "b2Vec2 list"
datatype b2Polygon = b2MakePolygon b2Hull real
datatype b2Circle = b2Circle b2Vec2 real
datatype b2Geometry = PolygonShape b2Polygon | CircleShape b2Circle

text \<open>
  Modelled from the spec: a body of the external body storage, as far as the sample
  reaches it: the definition it was created from, the shapes attached to it, and whether
  it is awake.
\<close>

record b2Body =
  bodyDef :: b2BodyDef
  shapes :: "(b2ShapeDef \<times> b2Geometry) list"
  isAwake :: bool

text \<open>
  Modelled from the spec: the joint instance (section 3, "Joint") owns a copy of its
  definition and the accumulated impulses that warm starting carries from step to step:
  linear, angular, the two one-sided limit impulses, and motor. Effective masses and soft
  coefficients are recomputed every step and are not part of the stored state here.
\<close>

record b2Joint =
  jointDef :: b2JointDef
  linearImpulse :: b2Vec2
  angularImpulse :: real
  lowerImpulse :: real
  upperImpulse :: real
  motorImpulse :: real

datatype tunable = MotorSpeed | MaxMotorForce | MaxMotorTorque | SpringHertz | SpringDampingRatio

text \<open>The calls that change the world, as the world records them in order.\<close>

datatype b2Call =
    CreateBody b2BodyDef
  | CreatePolygonShape b2BodyId b2ShapeDef b2Polygon
  | CreateCircleShape b2BodyId b2ShapeDef b2Circle
  | CreateJoint b2JointDef
  | DestroyJoint b2JointId
  | DestroyBody b2BodyId
  | SetTunable b2JointId tunable real
  | WakeBodies b2JointId

text \<open>
  Modelled from the spec: the world with its body storage and its joint registry
  (sections 2 and 4.3). Ids are never reused: the next id is one more than the number of
  objects created so far, so a destroyed id stays invalid, as the generation counter of
  the spec ensures. The constants of the absent library are fields of the world: the
  strictly positive minimum length \<open>linearSlop\<close> and the values returned by
  \<open>b2DefaultBodyDef\<close>, \<open>b2DefaultShapeDef\<close> and \<open>b2DefaultWheelJointDef\<close>.
\<close>

record b2World =
  bodies :: "b2BodyId \<rightharpoonup> b2Body"
  joints :: "b2JointId \<rightharpoonup> b2Joint"
  bodyCount :: nat
  jointCount :: nat
  linearSlop :: real
  b2DefaultBodyDef :: b2BodyDef
  b2DefaultShapeDef :: b2ShapeDef
  b2DefaultWheelJointDef :: b2WheelJointDef
  calls :: "b2Call list"

subsection \<open>Bodies and shapes\<close>

text \<open>
  Modelled from the spec: body and shape creation belong to the external world and body
  lifecycle. A new body takes the next id, is awake and has no shape; a shape is appended
  to the shapes of a live body.
\<close>

definition b2CreateBody :: "b2World \<Rightarrow> b2BodyDef \<Rightarrow> b2BodyId \<times> b2World" where
  "b2CreateBody w def =
     (let bodyId = b2Id (Suc (bodyCount w))
      in (bodyId,
          w\<lparr>bodies := (bodies w)(bodyId \<mapsto> \<lparr>bodyDef = def, shapes = [], isAwake = True\<rparr>),
            bodyCount := Suc (bodyCount w),
            calls := calls w @ [CreateBody def]\<rparr>))"

definition add_shape :: "b2World \<Rightarrow> b2BodyId \<Rightarrow> b2ShapeDef \<Rightarrow> b2Geometry \<Rightarrow> b2Call \<Rightarrow> error + b2World" where
  "add_shape w bodyId def g c =
     (case bodies w bodyId of
        None \<Rightarrow> Inl InvalidHandle
      | Some b \<Rightarrow>
          Inr (w\<lparr>bodies := (bodies w)(bodyId \<mapsto> b\<lparr>shapes := shapes b @ [(def, g)]\<rparr>),
                calls := calls w @ [c]\<rparr>))"

definition b2CreatePolygonShape :: "b2World \<Rightarrow> b2BodyId \<Rightarrow> b2ShapeDef \<Rightarrow> b2Polygon \<Rightarrow> error + b2World" where
  "b2CreatePolygonShape w bodyId def polygon =
     add_shape w bodyId def (PolygonShape polygon) (CreatePolygonShape bodyId def polygon)"

definition b2CreateCircleShape :: "b2World \<Rightarrow> b2BodyId \<Rightarrow> b2ShapeDef \<Rightarrow> b2Circle \<Rightarrow> error + b2World" where
  "b2CreateCircleShape w bodyId def circle =
     add_shape w bodyId def (CircleShape circle) (CreateCircleShape bodyId def circle)"

text \<open>
  Modelled from the spec: the body state accessor. A body of this model has the position
  of its definition and no rotation, so a world point becomes local by subtracting the
  position and a world vector is its own local vector.
\<close>

definition b2Body_GetPosition :: "b2World \<Rightarrow> b2BodyId \<Rightarrow> error + b2Vec2" where
  "b2Body_GetPosition w bodyId =
     (case bodies w bodyId of None \<Rightarrow> Inl InvalidHandle | Some b \<Rightarrow> Inr (position (bodyDef b)))"

definition b2Body_GetLocalPoint :: "b2World \<Rightarrow> b2BodyId \<Rightarrow> b2Vec2 \<Rightarrow> error + b2Vec2" where
  "b2Body_GetLocalPoint w bodyId p =
     (case bodies w bodyId of
        None \<Rightarrow> Inl InvalidHandle
      | Some b \<Rightarrow> Inr (b2Sub p (position (bodyDef b))))"

definition b2Body_GetLocalVector :: "b2World \<Rightarrow> b2BodyId \<Rightarrow> b2Vec2 \<Rightarrow> error + b2Vec2" where
  "b2Body_GetLocalVector w bodyId v =
     (case bodies w bodyId of None \<Rightarrow> Inl InvalidHandle | Some b \<Rightarrow> Inr v)"

subsection \<open>Joint creation\<close>

text \<open>
  Modelled from the spec (sections 4.2 and 4.3): creation validates the definition
  (distinct, live bodies; non-negative hertz, damping ratio and maximum force or torque),
  swaps limit bounds that come inverted, clamps the lengths of a distance joint to the
  positive minimum, zeroes the accumulated impulses and registers the joint. The rule that
  seeds an unspecified length from the anchor separation is left out: it needs the body
  poses and touches no limit bound.
\<close>

fun jointDef_nonneg :: "b2JointDef \<Rightarrow> bool" where
  "jointDef_nonneg (DistanceDef d) =
     (0 \<le> b2DistanceJointDef.hertz d \<and> 0 \<le> b2DistanceJointDef.dampingRatio d
      \<and> 0 \<le> b2DistanceJointDef.maxMotorForce d)"
| "jointDef_nonneg (MotorDef d) = (0 \<le> b2MotorJointDef.maxForce d \<and> 0 \<le> maxTorque d)"
| "jointDef_nonneg (MouseDef d) =
     (0 \<le> b2MouseJointDef.hertz d \<and> 0 \<le> b2MouseJointDef.dampingRatio d
      \<and> 0 \<le> b2MouseJointDef.maxForce d)"
| "jointDef_nonneg (PrismaticDef d) =
     (0 \<le> b2PrismaticJointDef.hertz d \<and> 0 \<le> b2PrismaticJointDef.dampingRatio d
      \<and> 0 \<le> b2PrismaticJointDef.maxMotorForce d)"
| "jointDef_nonneg (RevoluteDef d) =
     (0 \<le> b2RevoluteJointDef.hertz d \<and> 0 \<le> b2RevoluteJointDef.dampingRatio d
      \<and> 0 \<le> b2RevoluteJointDef.maxMotorTorque d)"
| "jointDef_nonneg (WeldDef d) =
     (0 \<le> linearHertz d \<and> 0 \<le> angularHertz d
      \<and> 0 \<le> linearDampingRatio d \<and> 0 \<le> angularDampingRatio d)"
| "jointDef_nonneg (WheelDef d) =
     (0 \<le> b2WheelJointDef.hertz d \<and> 0 \<le> b2WheelJointDef.dampingRatio d
      \<and> 0 \<le> b2WheelJointDef.maxMotorTorque d)"

definition swap_inverted :: "real \<Rightarrow> real \<Rightarrow> real \<times> real" where
  "swap_inverted lower upper = (if upper < lower then (upper, lower) else (lower, upper))"

fun jointDef_stored :: "real \<Rightarrow> b2JointDef \<Rightarrow> b2JointDef" where
  "jointDef_stored slop (DistanceDef d) =
     (let (lo, hi) = swap_inverted (minLength d) (maxLength d)
      in DistanceDef (d\<lparr>length' := max slop (length' d),
                        minLength := max slop lo,
                        maxLength := max slop hi\<rparr>))"
| "jointDef_stored slop (PrismaticDef d) =
     (let (lo, hi) = swap_inverted (b2PrismaticJointDef.lowerTranslation d)
                                   (b2PrismaticJointDef.upperTranslation d)
      in PrismaticDef (d\<lparr>b2PrismaticJointDef.lowerTranslation := lo,
                         b2PrismaticJointDef.upperTranslation := hi\<rparr>))"
| "jointDef_stored slop (RevoluteDef d) =
     (let (lo, hi) = swap_inverted (lowerAngle d) (upperAngle d)
      in RevoluteDef (d\<lparr>lowerAngle := lo, upperAngle := hi\<rparr>))"
| "jointDef_stored slop (WheelDef d) =
     (let (lo, hi) = swap_inverted (b2WheelJointDef.lowerTranslation d)
                                   (b2WheelJointDef.upperTranslation d)
      in WheelDef (d\<lparr>b2WheelJointDef.lowerTranslation := lo,
                     b2WheelJointDef.upperTranslation := hi\<rparr>))"
| "jointDef_stored slop (MotorDef d) = MotorDef d"
| "jointDef_stored slop (MouseDef d) = MouseDef d"
| "jointDef_stored slop (WeldDef d) = WeldDef d"

definition b2CreateJoint :: "b2World \<Rightarrow> b2JointDef \<Rightarrow> error + (b2JointId \<times> b2World)" where
  "b2CreateJoint w def =
     (if jointDef_bodyIdA def = jointDef_bodyIdB def
         \<or> bodies w (jointDef_bodyIdA def) = None
         \<or> bodies w (jointDef_bodyIdB def) = None
      then Inl InvalidJointDefinition
      else if \<not> jointDef_nonneg def then Inl InvalidJointDefinition
      else
        let jointId = b2Id (Suc (jointCount w));
            joint = \<lparr>jointDef = jointDef_stored (linearSlop w) def,
                     linearImpulse = b2Vec2 0 0, angularImpulse = 0,
                     lowerImpulse = 0, upperImpulse = 0, motorImpulse = 0\<rparr>
        in Inr (jointId,
                w\<lparr>joints := (joints w)(jointId \<mapsto> joint),
                  jointCount := Suc (jointCount w),
                  calls := calls w @ [CreateJoint def]\<rparr>))"

definition b2CreateDistanceJoint :: "b2World \<Rightarrow> b2DistanceJointDef \<Rightarrow> error + (b2JointId \<times> b2World)" where
  "b2CreateDistanceJoint w def = b2CreateJoint w (DistanceDef def)"

definition b2CreatePrismaticJoint :: "b2World \<Rightarrow> b2PrismaticJointDef \<Rightarrow> error + (b2JointId \<times> b2World)" where
  "b2CreatePrismaticJoint w def = b2CreateJoint w (PrismaticDef def)"

definition b2CreateRevoluteJoint :: "b2World \<Rightarrow> b2RevoluteJointDef \<Rightarrow> error + (b2JointId \<times> b2World)" where
  "b2CreateRevoluteJoint w def = b2CreateJoint w (RevoluteDef def)"

definition b2CreateWheelJoint :: "b2World \<Rightarrow> b2WheelJointDef \<Rightarrow> error + (b2JointId \<times> b2World)" where
  "b2CreateWheelJoint w def = b2CreateJoint w (WheelDef def)"

subsection \<open>Destruction, setters and waking\<close>

text \<open>
  Modelled from the spec (sections 4.3 and 6): destroying a joint that is not live changes
  nothing and signals \<open>JointNotFound\<close>; destroying a body destroys every joint that
  references it.
\<close>

definition b2DestroyJoint :: "b2World \<Rightarrow> b2JointId \<Rightarrow> error + b2World" where
  "b2DestroyJoint w jointId =
     (case joints w jointId of
        None \<Rightarrow> Inl JointNotFound
      | Some j \<Rightarrow>
          Inr (w\<lparr>joints := (joints w)(jointId := None),
                calls := calls w @ [DestroyJoint jointId]\<rparr>))"

definition joints_without_body :: "b2BodyId \<Rightarrow> (b2JointId \<rightharpoonup> b2Joint) \<Rightarrow> (b2JointId \<rightharpoonup> b2Joint)" where
  "joints_without_body bodyId js =
     (\<lambda>jointId.
        case js jointId of
          None \<Rightarrow> None
        | Some j \<Rightarrow>
            if jointDef_bodyIdA (jointDef j) = bodyId \<or> jointDef_bodyIdB (jointDef j) = bodyId
            then None else Some j)"

definition b2DestroyBody :: "b2World \<Rightarrow> b2BodyId \<Rightarrow> error + b2World" where
  "b2DestroyBody w bodyId =
     (case bodies w bodyId of
        None \<Rightarrow> Inl InvalidHandle
      | Some b \<Rightarrow>
          Inr (w\<lparr>bodies := (bodies w)(bodyId := None),
                joints := joints_without_body bodyId (joints w),
                calls := calls w @ [DestroyBody bodyId]\<rparr>))"

text \<open>
  Modelled from the spec (sections 4.3 and 6): a setter \<open>b2<Type>Joint_Set<X>\<close> writes
  one tunable of the stored definition of a live joint of its type and nothing else; on
  any other handle it fails with \<open>InvalidHandle\<close>. \<open>set_tunable\<close> is the write, for
  the definitions that have the member.
\<close>

fun set_tunable :: "tunable \<Rightarrow> real \<Rightarrow> b2JointDef \<Rightarrow> b2JointDef option" where
  "set_tunable MotorSpeed v (DistanceDef d) = Some (DistanceDef (d\<lparr>b2DistanceJointDef.motorSpeed := v\<rparr>))"
| "set_tunable MotorSpeed v (PrismaticDef d) = Some (PrismaticDef (d\<lparr>b2PrismaticJointDef.motorSpeed := v\<rparr>))"
| "set_tunable MotorSpeed v (RevoluteDef d) = Some (RevoluteDef (d\<lparr>b2RevoluteJointDef.motorSpeed := v\<rparr>))"
| "set_tunable MotorSpeed v (WheelDef d) = Some (WheelDef (d\<lparr>b2WheelJointDef.motorSpeed := v\<rparr>))"
| "set_tunable MaxMotorForce v (DistanceDef d) = Some (DistanceDef (d\<lparr>b2DistanceJointDef.maxMotorForce := v\<rparr>))"
| "set_tunable MaxMotorForce v (PrismaticDef d) = Some (PrismaticDef (d\<lparr>b2PrismaticJointDef.maxMotorForce := v\<rparr>))"
| "set_tunable MaxMotorTorque v (RevoluteDef d) = Some (RevoluteDef (d\<lparr>b2RevoluteJointDef.maxMotorTorque := v\<rparr>))"
| "set_tunable MaxMotorTorque v (WheelDef d) = Some (WheelDef (d\<lparr>b2WheelJointDef.maxMotorTorque := v\<rparr>))"
| "set_tunable SpringHertz v (DistanceDef d) = Some (DistanceDef (d\<lparr>b2DistanceJointDef.hertz := v\<rparr>))"
| "set_tunable SpringHertz v (MouseDef d) = Some (MouseDef (d\<lparr>b2MouseJointDef.hertz := v\<rparr>))"
| "set_tunable SpringHertz v (PrismaticDef d) = Some (PrismaticDef (d\<lparr>b2PrismaticJointDef.hertz := v\<rparr>))"
| "set_tunable SpringHertz v (RevoluteDef d) = Some (RevoluteDef (d\<lparr>b2RevoluteJointDef.hertz := v\<rparr>))"
| "set_tunable SpringHertz v (WheelDef d) = Some (WheelDef (d\<lparr>b2WheelJointDef.hertz := v\<rparr>))"
| "set_tunable SpringDampingRatio v (DistanceDef d) = Some (DistanceDef (d\<lparr>b2DistanceJointDef.dampingRatio := v\<rparr>))"
| "set_tunable SpringDampingRatio v (MouseDef d) = Some (MouseDef (d\<lparr>b2MouseJointDef.dampingRatio := v\<rparr>))"
| "set_tunable SpringDampingRatio v (PrismaticDef d) = Some (PrismaticDef (d\<lparr>b2PrismaticJointDef.dampingRatio := v\<rparr>))"
| "set_tunable SpringDampingRatio v (RevoluteDef d) = Some (RevoluteDef (d\<lparr>b2RevoluteJointDef.dampingRatio := v\<rparr>))"
| "set_tunable SpringDampingRatio v (WheelDef d) = Some (WheelDef (d\<lparr>b2WheelJointDef.dampingRatio := v\<rparr>))"
| "set_tunable t v d = None"

definition b2Joint_SetTunable ::
  "b2JointType \<Rightarrow> tunable \<Rightarrow> b2World \<Rightarrow> b2JointId \<Rightarrow> real \<Rightarrow> error + b2World" where
  "b2Joint_SetTunable ty t w jointId v =
     (case joints w jointId of
        None \<Rightarrow> Inl InvalidHandle
      | Some j \<Rightarrow>
          if jointDef_type (jointDef j) \<noteq> ty then Inl InvalidHandle
          else
            (case set_tunable t v (jointDef j) of
               None \<Rightarrow> Inl InvalidHandle
             | Some d \<Rightarrow>
                 Inr (w\<lparr>joints := (joints w)(jointId \<mapsto> j\<lparr>jointDef := d\<rparr>),
                       calls := calls w @ [SetTunable jointId t v]\<rparr>)))"

definition b2WheelJoint_SetMotorSpeed :: "b2World \<Rightarrow> b2JointId \<Rightarrow> real \<Rightarrow> error + b2World" where
  "b2WheelJoint_SetMotorSpeed w jointId v = b2Joint_SetTunable b2_wheelJoint MotorSpeed w jointId v"

definition b2WheelJoint_SetMaxMotorTorque :: "b2World \<Rightarrow> b2JointId \<Rightarrow> real \<Rightarrow> error + b2World" where
  "b2WheelJoint_SetMaxMotorTorque w jointId v = b2Joint_SetTunable b2_wheelJoint MaxMotorTorque w jointId v"

definition b2WheelJoint_SetSpringHertz :: "b2World \<Rightarrow> b2JointId \<Rightarrow> real \<Rightarrow> error + b2World" where
  "b2WheelJoint_SetSpringHertz w jointId v = b2Joint_SetTunable b2_wheelJoint SpringHertz w jointId v"

definition b2WheelJoint_SetSpringDampingRatio :: "b2World \<Rightarrow> b2JointId \<Rightarrow> real \<Rightarrow> error + b2World" where
  "b2WheelJoint_SetSpringDampingRatio w jointId v =
     b2Joint_SetTunable b2_wheelJoint SpringDampingRatio w jointId v"

text \<open>
  Modelled from the spec (section 6): \<open>b2Joint_WakeBodies\<close> marks both bodies of a live
  joint as awake.
\<close>

definition wake :: "b2BodyId \<Rightarrow> (b2BodyId \<rightharpoonup> b2Body) \<Rightarrow> (b2BodyId \<rightharpoonup> b2Body)" where
  "wake bodyId bs = (case bs bodyId of None \<Rightarrow> bs | Some b \<Rightarrow> bs(bodyId \<mapsto> b\<lparr>isAwake := True\<rparr>))"

definition b2Joint_WakeBodies :: "b2World \<Rightarrow> b2JointId \<Rightarrow> error + b2World" where
  "b2Joint_WakeBodies w jointId =
     (case joints w jointId of
        None \<Rightarrow> Inl InvalidHandle
      | Some j \<Rightarrow>
          Inr (w\<lparr>bodies := wake (jointDef_bodyIdB (jointDef j))
                              (wake (jointDef_bodyIdA (jointDef j)) (bodies w)),
                calls := calls w @ [WakeBodies jointId]\<rparr>))"

section \<open>The car of \<open>samples/car.cpp\<close>\<close>

text \<open>
  The class \<open>Car\<close> holds five ids and a flag. Its methods run against the world that the
  \<open>worldId\<close> (for \<open>Spawn\<close>) or the stored ids designate; the model passes that world in
  and returns it. An \<open>assert\<close> that fails ends the method with \<open>AssertionFailed\<close>.
  Parameters and locals whose names are taken in HOL (members of a definition struct,
  \<open>hull\<close>) carry a prime.
\<close>

record Car =
  m_chassisId :: b2BodyId
  m_rearWheelId :: b2BodyId
  m_frontWheelId :: b2BodyId
  m_rearAxleId :: b2JointId
  m_frontAxleId :: b2JointId
  m_isSpawned :: bool

definition Car_Car :: Car where
  "Car_Car =
     \<lparr>m_chassisId = b2Id 0, m_rearWheelId = b2Id 0, m_frontWheelId = b2Id 0,
      m_rearAxleId = b2Id 0, m_frontAxleId = b2Id 0, m_isSpawned = False\<rparr>"

fun scale_vertex :: "real \<Rightarrow> b2Vec2 \<Rightarrow> b2Vec2" where
  "scale_vertex scale (b2Vec2 x y) = b2Vec2 (x * scale) (y * scale)"

definition Car_Spawn ::
  "Car \<Rightarrow> b2World \<Rightarrow> b2Vec2 \<Rightarrow> real \<Rightarrow> real \<Rightarrow> real \<Rightarrow> real \<Rightarrow> void_ptr \<Rightarrow> error + (Car \<times> b2World)" where
  "Car_Spawn car worldId position' scale hertz' dampingRatio' torque userData' =
    (if m_isSpawned car \<noteq> False then Inl AssertionFailed
     else if \<not> B2_IS_NULL (m_chassisId car) then Inl AssertionFailed
     else if \<not> B2_IS_NULL (m_frontWheelId car) then Inl AssertionFailed
     else if \<not> B2_IS_NULL (m_rearWheelId car) then Inl AssertionFailed
     else
      let vertices = map (scale_vertex scale)
            [b2Vec2 (-1.5) (-0.5), b2Vec2 1.5 (-0.5), b2Vec2 1.5 0.0,
             b2Vec2 0.0 0.9, b2Vec2 (-1.15) 0.9, b2Vec2 (-1.5) 0.2];
          hull' = b2ComputeHull vertices;
          chassis = b2MakePolygon hull' 0.0;
          shapeDef = (b2DefaultShapeDef worldId)\<lparr>density := float_div 1.0 scale, friction := 0.2\<rparr>;
          circle = b2Circle (b2Vec2 0.0 0.0) (0.4 * scale);
          bodyDef = (b2DefaultBodyDef worldId)
                      \<lparr>type' := b2_dynamicBody,
                       position := b2Add (b2Vec2 0.0 (1.0 * scale)) position'\<rparr>;
          (chassisId, w1) = b2CreateBody worldId bodyDef;
          car = car\<lparr>m_chassisId := chassisId\<rparr>
      in and_then (b2CreatePolygonShape w1 (m_chassisId car) shapeDef chassis) (\<lambda>w2.
      let shapeDef = shapeDef\<lparr>density := float_div 2.0 scale, friction := 1.5\<rparr>;
          bodyDef = bodyDef\<lparr>position := b2Add (b2Vec2 (-1.0 * scale) (0.35 * scale)) position'\<rparr>;
          (rearWheelId, w3) = b2CreateBody w2 bodyDef;
          car = car\<lparr>m_rearWheelId := rearWheelId\<rparr>
      in and_then (b2CreateCircleShape w3 (m_rearWheelId car) shapeDef circle) (\<lambda>w4.
      let bodyDef = bodyDef\<lparr>position := b2Add (b2Vec2 (1.0 * scale) (0.4 * scale)) position'\<rparr>;
          (frontWheelId, w5) = b2CreateBody w4 bodyDef;
          car = car\<lparr>m_frontWheelId := frontWheelId\<rparr>
      in and_then (b2CreateCircleShape w5 (m_frontWheelId car) shapeDef circle) (\<lambda>w6.
      let axis = b2Vec2 0.0 1.0
      in and_then (b2Body_GetPosition w6 (m_rearWheelId car)) (\<lambda>pivot.
      let jointDef = b2DefaultWheelJointDef w6;
          jointDef = jointDef\<lparr>bodyIdA := m_chassisId car\<rparr>;
          jointDef = jointDef\<lparr>bodyIdB := m_rearWheelId car\<rparr>
      in and_then (b2Body_GetLocalVector w6 (bodyIdA jointDef) axis) (\<lambda>localAxis.
         and_then (b2Body_GetLocalPoint w6 (bodyIdA jointDef) pivot) (\<lambda>anchorA.
         and_then (b2Body_GetLocalPoint w6 (bodyIdB jointDef) pivot) (\<lambda>anchorB.
      let jointDef = jointDef
            \<lparr>localAxisA := localAxis, localAnchorA := anchorA, localAnchorB := anchorB,
             motorSpeed := 0.0, maxMotorTorque := torque, enableMotor := True,
             hertz := hertz', dampingRatio := dampingRatio',
             lowerTranslation := -0.25 * scale, upperTranslation := 0.25 * scale,
             enableLimit := True\<rparr>
      in and_then (b2CreateWheelJoint w6 jointDef) (\<lambda>(rearAxleId, w7).
      let car = car\<lparr>m_rearAxleId := rearAxleId\<rparr>
      in and_then (b2Body_GetPosition w7 (m_frontWheelId car)) (\<lambda>pivot.
      let jointDef = jointDef\<lparr>bodyIdA := m_chassisId car\<rparr>;
          jointDef = jointDef\<lparr>bodyIdB := m_frontWheelId car\<rparr>
      in and_then (b2Body_GetLocalVector w7 (bodyIdA jointDef) axis) (\<lambda>localAxis.
         and_then (b2Body_GetLocalPoint w7 (bodyIdA jointDef) pivot) (\<lambda>anchorA.
         and_then (b2Body_GetLocalPoint w7 (bodyIdB jointDef) pivot) (\<lambda>anchorB.
      let jointDef = jointDef
            \<lparr>localAxisA := localAxis, localAnchorA := anchorA, localAnchorB := anchorB,
             motorSpeed := 0.0, maxMotorTorque := torque, enableMotor := True,
             hertz := hertz', dampingRatio := dampingRatio',
             lowerTranslation := -0.25 * scale, upperTranslation := 0.25 * scale,
             enableLimit := True\<rparr>
      in and_then (b2CreateWheelJoint w7 jointDef) (\<lambda>(frontAxleId, w8).
      Inr (car\<lparr>m_frontAxleId := frontAxleId\<rparr>, w8)))))))))))))))"

definition Car_Despawn :: "Car \<Rightarrow> b2World \<Rightarrow> error + (Car \<times> b2World)" where
  "Car_Despawn car w =
    (if m_isSpawned car \<noteq> True then Inl AssertionFailed
     else
       and_then (b2DestroyJoint w (m_rearAxleId car)) (\<lambda>w.
       and_then (b2DestroyJoint w (m_frontAxleId car)) (\<lambda>w.
       and_then (b2DestroyBody w (m_rearWheelId car)) (\<lambda>w.
       and_then (b2DestroyBody w (m_frontWheelId car)) (\<lambda>w.
       and_then (b2DestroyBody w (m_chassisId car)) (\<lambda>w.
       Inr (car\<lparr>m_isSpawned := False\<rparr>, w)))))))"

definition Car_SetSpeed :: "Car \<Rightarrow> b2World \<Rightarrow> real \<Rightarrow> error + (Car \<times> b2World)" where
  "Car_SetSpeed car w speed =
     and_then (b2WheelJoint_SetMotorSpeed w (m_rearAxleId car) speed) (\<lambda>w.
     and_then (b2WheelJoint_SetMotorSpeed w (m_frontAxleId car) speed) (\<lambda>w.
     and_then (b2Joint_WakeBodies w (m_rearAxleId car)) (\<lambda>w.
     Inr (car, w))))"

definition Car_SetTorque :: "Car \<Rightarrow> b2World \<Rightarrow> real \<Rightarrow> error + (Car \<times> b2World)" where
  "Car_SetTorque car w torque =
     and_then (b2WheelJoint_SetMaxMotorTorque w (m_rearAxleId car) torque) (\<lambda>w.
     and_then (b2WheelJoint_SetMaxMotorTorque w (m_frontAxleId car) torque) (\<lambda>w.
     Inr (car, w)))"

definition Car_SetHertz :: "Car \<Rightarrow> b2World \<Rightarrow> real \<Rightarrow> error + (Car \<times> b2World)" where
  "Car_SetHertz car w hertz' =
     and_then (b2WheelJoint_SetSpringHertz w (m_rearAxleId car) hertz') (\<lambda>w.
     and_then (b2WheelJoint_SetSpringHertz w (m_frontAxleId car) hertz') (\<lambda>w.
     Inr (car, w)))"

definition Car_SetDampingRadio :: "Car \<Rightarrow> b2World \<Rightarrow> real \<Rightarrow> error + (Car \<times> b2World)" where
  "Car_SetDampingRadio car w dampingRatio' =
     and_then (b2WheelJoint_SetSpringDampingRatio w (m_rearAxleId car) dampingRatio') (\<lambda>w.
     and_then (b2WheelJoint_SetSpringDampingRatio w (m_frontAxleId car) dampingRatio') (\<lambda>w.
     Inr (car, w)))"

text \<open>An empty world, to run the sample on: no body, no joint, no call yet.\<close>

definition empty_world :: b2World where
  "empty_world =
     \<lparr>bodies = Map.empty, joints = Map.empty, bodyCount = 0, jointCount = 0,
      linearSlop = 0.005,
      b2DefaultBodyDef = \<lparr>type' = b2_staticBody, position = b2Vec2 0 0\<rparr>,
      b2DefaultShapeDef = \<lparr>density = Some 1, friction = 0.6\<rparr>,
      b2DefaultWheelJointDef =
        \<lparr>bodyIdA = b2Id 0, bodyIdB = b2Id 0,
         localAnchorA = b2Vec2 0 0, localAnchorB = b2Vec2 0 0, localAxisA = b2Vec2 1 0,
         enableSpring = True, hertz = 1, dampingRatio = 0.7,
         enableLimit = False, lowerTranslation = 0, upperTranslation = 0,
         enableMotor = False, maxMotorTorque = 0, motorSpeed = 0,
         collideConnected = False, userData = 0\<rparr>,
      calls = []\<rparr>"

text \<open>
  A world with two bodies and a prismatic joint definition between them whose limit bounds
  are inverted, to run joint creation on.
\<close>

definition two_body_world :: b2World where
  "two_body_world =
     (let bodyDef = \<lparr>type' = b2_dynamicBody, position = b2Vec2 0 0\<rparr>;
          (bodyId1, w1) = b2CreateBody empty_world bodyDef;
          (bodyId2, w2) = b2CreateBody w1 bodyDef
      in w2)"

definition inverted_prismatic_def :: b2PrismaticJointDef where
  "inverted_prismatic_def =
     \<lparr>b2PrismaticJointDef.bodyIdA = b2Id 1, b2PrismaticJointDef.bodyIdB = b2Id 2,
      b2PrismaticJointDef.localAnchorA = b2Vec2 0 0,
      b2PrismaticJointDef.localAnchorB = b2Vec2 0 0,
      b2PrismaticJointDef.localAxisA = b2Vec2 1 0,
      b2PrismaticJointDef.referenceAngle = 0,
      b2PrismaticJointDef.enableSpring = False,
      b2PrismaticJointDef.hertz = 0,
      b2PrismaticJointDef.dampingRatio = 0,
      b2PrismaticJointDef.enableLimit = True,
      b2PrismaticJointDef.lowerTranslation = 2,
      b2PrismaticJointDef.upperTranslation = -1,
      b2PrismaticJointDef.enableMotor = False,
      b2PrismaticJointDef.maxMotorForce = 0,
      b2PrismaticJointDef.motorSpeed = 0,
      b2PrismaticJointDef.collideConnected = False,
      b2PrismaticJointDef.userData = 0\<rparr>"

section \<open>Reading the world\<close>

text \<open>The joint definitions passed to joint creation, in the order of the calls.\<close>

fun created_joint_defs :: "b2Call list \<Rightarrow> b2JointDef list" where
  "created_joint_defs [] = []"
| "created_joint_defs (CreateJoint d # cs) = d # created_joint_defs cs"
| "created_joint_defs (c # cs) = created_joint_defs cs"

text \<open>The joints on which \<open>b2Joint_WakeBodies\<close> was called, in the order of the calls.\<close>

fun woken_joints :: "b2Call list \<Rightarrow> b2JointId list" where
  "woken_joints [] = []"
| "woken_joints (WakeBodies j # cs) = j # woken_joints cs"
| "woken_joints (c # cs) = woken_joints cs"

text \<open>The accumulated impulses of a joint, together.\<close>

definition joint_impulses :: "b2Joint \<Rightarrow> b2Vec2 \<times> real \<times> real \<times> real \<times> real" where
  "joint_impulses j = (linearImpulse j, angularImpulse j, lowerImpulse j, upperImpulse j, motorImpulse j)"

text \<open>The limit bounds \<open>(lower, upper)\<close> of a definition, for the four types that have a limit.\<close>

fun jointDef_limits :: "b2JointDef \<Rightarrow> (real \<times> real) option" where
  "jointDef_limits (DistanceDef d) = Some (minLength d, maxLength d)"
| "jointDef_limits (PrismaticDef d) =
     Some (b2PrismaticJointDef.lowerTranslation d, b2PrismaticJointDef.upperTranslation d)"
| "jointDef_limits (RevoluteDef d) = Some (lowerAngle d, upperAngle d)"
| "jointDef_limits (WheelDef d) =
     Some (b2WheelJointDef.lowerTranslation d, b2WheelJointDef.upperTranslation d)"
| "jointDef_limits (MotorDef d) = None"
| "jointDef_limits (MouseDef d) = None"
| "jointDef_limits (WeldDef d) = None"


section \<open>The motor constraint of the solver\<close>








lemmas members_defs =
  b2DistanceJointDef_members_def b2MotorJointDef_members_def b2MouseJointDef_members_def
  b2PrismaticJointDef_members_def b2RevoluteJointDef_members_def b2WeldJointDef_members_def
  b2WheelJointDef_members_def

section \<open>Members of the joint definitions\<close>

text \<open>
  C1 (counterexample). Not every definition variant has local anchor points in each
  body's local frame: \<open>b2MotorJointDef\<close> and \<open>b2MouseJointDef\<close> declare none. The
  motor joint has \<open>linearOffset\<close> and \<open>angularOffset\<close>, the mouse joint a \<open>target\<close>
  in world space.
\<close>

theorem C1_no_local_anchors_counterexample:
  "local_anchor_members (b2JointDef_members b2_motorJoint) = []
   \<and> local_anchor_members (b2JointDef_members b2_mouseJoint) = []
   \<and> member_named ''localAnchorA'' (b2JointDef_members b2_motorJoint) = None
   \<and> member_named ''localAnchorB'' (b2JointDef_members b2_motorJoint) = None
   \<and> member_named ''localAnchorA'' (b2JointDef_members b2_mouseJoint) = None
   \<and> member_named ''localAnchorB'' (b2JointDef_members b2_mouseJoint) = None"
  by (simp add: local_anchor_members_def member_named_def members_defs)

text \<open>
  C1 (amended). Every definition variant \<open>t\<close> declares the two body references
  \<open>bodyIdA\<close> and \<open>bodyIdB\<close>, the \<open>collideConnected\<close> flag and the opaque
  \<open>userData\<close> pointer. The Distance, Prismatic, Revolute, Weld and Wheel definitions
  declare exactly two body-local anchors, \<open>localAnchorA\<close> relative to bodyA's origin and
  \<open>localAnchorB\<close> relative to bodyB's origin. The Motor definition instead declares
  \<open>linearOffset\<close> in bodyA's frame, the Mouse definition a \<open>target\<close> in world space.
\<close>

theorem C1_common_members:
  "member_named ''bodyIdA'' (b2JointDef_members t) = Some (Member C_b2BodyId ''bodyIdA'' Undocumented)
   \<and> member_named ''bodyIdB'' (b2JointDef_members t) = Some (Member C_b2BodyId ''bodyIdB'' Undocumented)
   \<and> member_named ''collideConnected'' (b2JointDef_members t)
        = Some (Member C_bool ''collideConnected'' Undocumented)
   \<and> member_named ''userData'' (b2JointDef_members t) = Some (Member C_void_ptr ''userData'' Undocumented)
   \<and> local_anchor_members (b2JointDef_members t) =
        (if t = b2_motorJoint \<or> t = b2_mouseJoint then []
         else [Member C_b2Vec2 ''localAnchorA'' RelativeToBodyA,
               Member C_b2Vec2 ''localAnchorB'' RelativeToBodyB])
   \<and> member_named ''linearOffset'' (b2JointDef_members b2_motorJoint)
        = Some (Member C_b2Vec2 ''linearOffset'' InBodyA)
   \<and> member_named ''target'' (b2JointDef_members b2_mouseJoint)
        = Some (Member C_b2Vec2 ''target'' WorldSpace)"
  by (cases t) (simp_all add: local_anchor_members_def member_named_def members_defs)

text \<open>
  C7. The prismatic joint definition's motor is linear: it declares \<open>maxMotorForce\<close>,
  documented in newtons, and \<open>motorSpeed\<close>, documented in meters per second, and no
  \<open>maxMotorTorque\<close>. The wheel joint definition's motor is rotational: its
  \<open>enableMotor\<close> is documented as the rotational motor, and it declares
  \<open>maxMotorTorque\<close>, documented in newton-meters, and \<open>motorSpeed\<close>, documented in
  radians per second, and no \<open>maxMotorForce\<close>.
\<close>

theorem C7_motor_units:
  "member_named ''maxMotorForce'' (b2JointDef_members b2_prismaticJoint)
      = Some (Member C_float ''maxMotorForce'' Newtons)
   \<and> member_named ''motorSpeed'' (b2JointDef_members b2_prismaticJoint)
      = Some (Member C_float ''motorSpeed'' MetersPerSecond)
   \<and> member_named ''maxMotorTorque'' (b2JointDef_members b2_prismaticJoint) = None
   \<and> member_named ''enableMotor'' (b2JointDef_members b2_wheelJoint)
      = Some (Member C_bool ''enableMotor'' Rotational)
   \<and> member_named ''maxMotorTorque'' (b2JointDef_members b2_wheelJoint)
      = Some (Member C_float ''maxMotorTorque'' NewtonMeters)
   \<and> member_named ''motorSpeed'' (b2JointDef_members b2_wheelJoint)
      = Some (Member C_float ''motorSpeed'' RadiansPerSecond)
   \<and> member_named ''maxMotorForce'' (b2JointDef_members b2_wheelJoint) = None"
  by (simp add: member_named_def members_defs)

section \<open>The car: facts about \<open>Spawn\<close> and the setters\<close>

lemmas spawn_api_defs =
  b2CreateBody_def b2CreatePolygonShape_def b2CreateCircleShape_def add_shape_def
  b2Body_GetPosition_def b2Body_GetLocalPoint_def b2Body_GetLocalVector_def
  b2CreateWheelJoint_def b2CreateJoint_def

lemma and_then_Inr [simp]: "and_then (Inr v) f = f v"
  by (simp add: and_then_def)

lemma and_then_Inl [simp]: "and_then (Inl e) f = Inl e"
  by (simp add: and_then_def)

lemma and_then_InrE:
  assumes "and_then r f = Inr x"
  obtains v where "r = Inr v" and "f v = Inr x"
  using assms by (cases r) simp_all

lemma created_joint_defs_append [simp]:
  "created_joint_defs (xs @ ys) = created_joint_defs xs @ created_joint_defs ys"
  by (induction xs rule: created_joint_defs.induct) simp_all

lemma Spawn_asserts:
  assumes "Car_Spawn car w p s h d t u = Inr (car', w')"
  shows "\<not> m_isSpawned car \<and> B2_IS_NULL (m_chassisId car)
         \<and> B2_IS_NULL (m_frontWheelId car) \<and> B2_IS_NULL (m_rearWheelId car)"
  using assms by (auto simp add: Car_Spawn_def split: if_splits)

lemma Spawn_rejects_negative:
  assumes "\<not> m_isSpawned car" "B2_IS_NULL (m_chassisId car)"
    "B2_IS_NULL (m_frontWheelId car)" "B2_IS_NULL (m_rearWheelId car)"
    "\<not> (0 \<le> h \<and> 0 \<le> d \<and> 0 \<le> t)"
  shows "Car_Spawn car w p s h d t u = Inl InvalidJointDefinition"
  using assms by (simp add: Car_Spawn_def spawn_api_defs Let_def)

lemma Spawn_nonneg:
  assumes "Car_Spawn car w p s h d t u = Inr (car', w')"
  shows "0 \<le> h \<and> 0 \<le> d \<and> 0 \<le> t"
proof (rule ccontr)
  assume "\<not> ?thesis"
  with Spawn_asserts[OF assms] have "Car_Spawn car w p s h d t u = Inl InvalidJointDefinition"
    by (intro Spawn_rejects_negative) simp_all
  with assms show False by simp
qed

lemma Spawn_succeeds:
  assumes "\<not> m_isSpawned car" "B2_IS_NULL (m_chassisId car)"
    "B2_IS_NULL (m_frontWheelId car)" "B2_IS_NULL (m_rearWheelId car)"
    "0 \<le> h" "0 \<le> d" "0 \<le> t"
  shows "\<exists>car' w'. Car_Spawn car w p s h d t u = Inr (car', w')"
  using assms by (simp add: Car_Spawn_def spawn_api_defs Let_def)

lemma Spawn_never_asserts_later:
  assumes "\<not> m_isSpawned car" "B2_IS_NULL (m_chassisId car)"
    "B2_IS_NULL (m_frontWheelId car)" "B2_IS_NULL (m_rearWheelId car)"
  shows "Car_Spawn car w p s h d t u \<noteq> Inl AssertionFailed"
proof (cases "0 \<le> h \<and> 0 \<le> d \<and> 0 \<le> t")
  case True
  with assms Spawn_succeeds[of car h d t w p s u] show ?thesis by auto
next
  case False
  with assms Spawn_rejects_negative[of car h d t w p s u] show ?thesis by simp
qed

lemma Spawn_axles:
  assumes "Car_Spawn car w p s h d t u = Inr (car', w')"
  shows "\<exists>jr jf. joints w' (m_rearAxleId car') = Some jr \<and> joints w' (m_frontAxleId car') = Some jf
     \<and> jointDef_type (jointDef jr) = b2_wheelJoint \<and> jointDef_type (jointDef jf) = b2_wheelJoint
     \<and> m_rearAxleId car' \<noteq> m_frontAxleId car'"
  using Spawn_asserts[OF assms] Spawn_nonneg[OF assms] assms
  by (auto simp add: Car_Spawn_def spawn_api_defs Let_def split: prod.splits)

lemma fresh_car_spawns:
  "\<exists>car w. Car_Spawn Car_Car empty_world (b2Vec2 0 0) 1 5 0.7 2.5 0 = Inr (car, w)"
  by (rule Spawn_succeeds) (simp_all add: Car_Car_def B2_IS_NULL_def)

lemma woken_joints_append [simp]:
  "woken_joints (xs @ ys) = woken_joints xs @ woken_joints ys"
  by (induction xs rule: woken_joints.induct) simp_all

lemma SetTunable_calls:
  "b2Joint_SetTunable ty tn w j v = Inr w' \<Longrightarrow> calls w' = calls w @ [SetTunable j tn v]"
  by (auto simp add: b2Joint_SetTunable_def split: option.splits if_splits)

lemma WakeBodies_calls:
  "b2Joint_WakeBodies w j = Inr w' \<Longrightarrow> calls w' = calls w @ [WakeBodies j]"
  by (auto simp add: b2Joint_WakeBodies_def split: option.splits)

lemma Spawn_wakes_nothing:
  assumes "Car_Spawn car w p s h d t u = Inr (car', w')"
  shows "woken_joints (calls w') = woken_joints (calls w)"
  using Spawn_asserts[OF assms] Spawn_nonneg[OF assms] assms
  by (auto simp add: Car_Spawn_def spawn_api_defs Let_def)

lemma SetTunable_wheel_succeeds:
  assumes "joints w j = Some jt" "jointDef_type (jointDef jt) = b2_wheelJoint"
    "tn \<noteq> MaxMotorForce"
  shows "\<exists>d. set_tunable tn v (jointDef jt) = Some d \<and> jointDef_type d = b2_wheelJoint
     \<and> b2Joint_SetTunable b2_wheelJoint tn w j v
       = Inr (w\<lparr>joints := (joints w)(j \<mapsto> jt\<lparr>jointDef := d\<rparr>),
                calls := calls w @ [SetTunable j tn v]\<rparr>)"
  using assms
  by (cases "jointDef jt"; cases tn) (simp_all add: b2Joint_SetTunable_def)

lemma set_both_axles:
  assumes "joints w rear = Some jr" "joints w front = Some jf"
    "jointDef_type (jointDef jr) = b2_wheelJoint" "jointDef_type (jointDef jf) = b2_wheelJoint"
    "tn \<noteq> MaxMotorForce"
  shows "\<exists>w1 w2 jr'. b2Joint_SetTunable b2_wheelJoint tn w rear v = Inr w1
     \<and> b2Joint_SetTunable b2_wheelJoint tn w1 front v = Inr w2
     \<and> joints w2 rear = Some jr'"
proof -
  from SetTunable_wheel_succeeds[OF assms(1) assms(3) assms(5), of v]
  obtain d where 1: "b2Joint_SetTunable b2_wheelJoint tn w rear v
       = Inr (w\<lparr>joints := (joints w)(rear \<mapsto> jr\<lparr>jointDef := d\<rparr>),
                calls := calls w @ [SetTunable rear tn v]\<rparr>)"
     and dt: "jointDef_type d = b2_wheelJoint"
    by auto
  let ?w1 = "w\<lparr>joints := (joints w)(rear \<mapsto> jr\<lparr>jointDef := d\<rparr>),
                calls := calls w @ [SetTunable rear tn v]\<rparr>"
  have "\<exists>jf'. joints ?w1 front = Some jf' \<and> jointDef_type (jointDef jf') = b2_wheelJoint"
    using assms dt by auto
  then obtain jf' where f: "joints ?w1 front = Some jf'"
      "jointDef_type (jointDef jf') = b2_wheelJoint" by blast
  from SetTunable_wheel_succeeds[OF f assms(5), of v]
  obtain d' where 2: "b2Joint_SetTunable b2_wheelJoint tn ?w1 front v
       = Inr (?w1\<lparr>joints := (joints ?w1)(front \<mapsto> jf'\<lparr>jointDef := d'\<rparr>),
                calls := calls ?w1 @ [SetTunable front tn v]\<rparr>)"
    by auto
  have "\<exists>jr'. joints (?w1\<lparr>joints := (joints ?w1)(front \<mapsto> jf'\<lparr>jointDef := d'\<rparr>),
                calls := calls ?w1 @ [SetTunable front tn v]\<rparr>) rear = Some jr'"
    by simp
  with 1 2 show ?thesis by blast
qed

lemma SetTorque_succeeds:
  assumes "joints w (m_rearAxleId car) = Some jr" "joints w (m_frontAxleId car) = Some jf"
    "jointDef_type (jointDef jr) = b2_wheelJoint" "jointDef_type (jointDef jf) = b2_wheelJoint"
  shows "\<exists>w'. Car_SetTorque car w v = Inr (car, w')"
proof -
  from set_both_axles[OF assms, of MaxMotorTorque v] obtain w1 w2 where
    "b2Joint_SetTunable b2_wheelJoint MaxMotorTorque w (m_rearAxleId car) v = Inr w1"
    "b2Joint_SetTunable b2_wheelJoint MaxMotorTorque w1 (m_frontAxleId car) v = Inr w2"
    by auto
  then show ?thesis
    by (simp add: Car_SetTorque_def b2WheelJoint_SetMaxMotorTorque_def)
qed

lemma SetSpeed_succeeds:
  assumes "joints w (m_rearAxleId car) = Some jr" "joints w (m_frontAxleId car) = Some jf"
    "jointDef_type (jointDef jr) = b2_wheelJoint" "jointDef_type (jointDef jf) = b2_wheelJoint"
  shows "\<exists>w'. Car_SetSpeed car w v = Inr (car, w')"
proof -
  from set_both_axles[OF assms, of MotorSpeed v] obtain w1 w2 jr' where
    "b2Joint_SetTunable b2_wheelJoint MotorSpeed w (m_rearAxleId car) v = Inr w1"
    "b2Joint_SetTunable b2_wheelJoint MotorSpeed w1 (m_frontAxleId car) v = Inr w2"
    "joints w2 (m_rearAxleId car) = Some jr'"
    by auto
  then show ?thesis
    by (simp add: Car_SetSpeed_def b2WheelJoint_SetMotorSpeed_def b2Joint_WakeBodies_def)
qed





section \<open>The car: spawning\<close>

text \<open>
  C4. When \<open>Car::Spawn\<close> returns, \<open>m_isSpawned\<close> is still false: \<open>Spawn\<close> asserts that
  it is false and never assigns it. A \<open>Car::Despawn\<close> that follows at once therefore fails
  its assertion \<open>m_isSpawned == true\<close>.
\<close>

theorem C4_Spawn_leaves_isSpawned_false:
  assumes "Car_Spawn car w p s h d t u = Inr (car', w')"
  shows "m_isSpawned car' = False \<and> Car_Despawn car' w' = Inl AssertionFailed"
proof -
  have "m_isSpawned car' = False"
    using assms
    by (auto simp add: Car_Spawn_def Let_def split: if_splits prod.splits elim!: and_then_InrE)
  then show ?thesis by (simp add: Car_Despawn_def)
qed

text \<open>C4, at a fresh car spawned into the empty world with scale 1 and torque 2.5.\<close>

theorem C4_Spawn_leaves_isSpawned_false_witness:
  "\<exists>car w. Car_Spawn Car_Car empty_world (b2Vec2 0 0) 1 5 0.7 2.5 0 = Inr (car, w)
     \<and> m_isSpawned car = False \<and> Car_Despawn car w = Inl AssertionFailed"
proof -
  from fresh_car_spawns obtain car w
    where run: "Car_Spawn Car_Car empty_world (b2Vec2 0 0) 1 5 0.7 2.5 0 = Inr (car, w)" by blast
  from C4_Spawn_leaves_isSpawned_false[OF run] run show ?thesis by blast
qed



text \<open>
  C10. A freshly constructed \<open>Car\<close> has null chassis, rear-wheel, front-wheel, rear-axle
  and front-axle ids and \<open>m_isSpawned = false\<close>; \<open>Car::Spawn\<close> on it, in any world and
  with any arguments, does not fail an assertion.
\<close>

theorem C10_fresh_car_meets_Spawn_preconditions:
  "B2_IS_NULL (m_chassisId Car_Car) \<and> B2_IS_NULL (m_rearWheelId Car_Car)
   \<and> B2_IS_NULL (m_frontWheelId Car_Car) \<and> B2_IS_NULL (m_rearAxleId Car_Car)
   \<and> B2_IS_NULL (m_frontAxleId Car_Car) \<and> m_isSpawned Car_Car = False
   \<and> Car_Spawn Car_Car w p s h d t u \<noteq> Inl AssertionFailed"
proof -
  have "Car_Spawn Car_Car w p s h d t u \<noteq> Inl AssertionFailed"
    by (rule Spawn_never_asserts_later) (simp_all add: Car_Car_def B2_IS_NULL_def)
  then show ?thesis by (simp add: Car_Car_def B2_IS_NULL_def)
qed

section \<open>The car: motor setters and waking\<close>

text \<open>
  C6 (counterexample). On a spawned car \<open>Car::SetTorque\<close> changes the maximum motor
  torque of both axle joints and returns without any call of \<open>b2Joint_WakeBodies\<close>.
\<close>

theorem C6_SetTorque_wakes_nothing_counterexample:
  "\<exists>car w w'.
      Car_Spawn Car_Car empty_world (b2Vec2 0 0) 1 5 0.7 2.5 0 = Inr (car, w)
    \<and> Car_SetTorque car w 10 = Inr (car, w')
    \<and> calls w' = calls w @ [SetTunable (m_rearAxleId car) MaxMotorTorque 10,
                            SetTunable (m_frontAxleId car) MaxMotorTorque 10]
    \<and> woken_joints (calls w') = []"
proof -
  from fresh_car_spawns obtain car w
    where run: "Car_Spawn Car_Car empty_world (b2Vec2 0 0) 1 5 0.7 2.5 0 = Inr (car, w)" by blast
  from Spawn_axles[OF run] SetTorque_succeeds[of w car _ _ 10]
  obtain w' where set: "Car_SetTorque car w 10 = Inr (car, w')" by blast
  have c: "calls w' = calls w @ [SetTunable (m_rearAxleId car) MaxMotorTorque 10,
                            SetTunable (m_frontAxleId car) MaxMotorTorque 10]"
    using set by (auto simp add: Car_SetTorque_def b2WheelJoint_SetMaxMotorTorque_def
      elim!: and_then_InrE dest!: SetTunable_calls)
  have "woken_joints (calls w) = []"
    using Spawn_wakes_nothing[OF run] by (simp add: empty_world_def)
  with c have "woken_joints (calls w') = []" by simp
  with run set c show ?thesis by blast
qed

text \<open>
  C6 (amended). \<open>Car::SetSpeed\<close> sets the motor speed of the rear and of the front axle
  joint and then calls \<open>b2Joint_WakeBodies\<close> once, on the rear axle joint.
  \<open>Car::SetTorque\<close> sets the maximum motor torque of the rear and of the front axle joint
  and calls nothing else.
\<close>

theorem C6_wake_calls:
  "(Car_SetSpeed car w speed = Inr (car1, w1) \<longrightarrow>
      car1 = car
      \<and> calls w1 = calls w @ [SetTunable (m_rearAxleId car) MotorSpeed speed,
                              SetTunable (m_frontAxleId car) MotorSpeed speed,
                              WakeBodies (m_rearAxleId car)])
   \<and> (Car_SetTorque car w torque = Inr (car2, w2) \<longrightarrow>
      car2 = car
      \<and> calls w2 = calls w @ [SetTunable (m_rearAxleId car) MaxMotorTorque torque,
                              SetTunable (m_frontAxleId car) MaxMotorTorque torque])"
  by (auto simp add: Car_SetSpeed_def Car_SetTorque_def b2WheelJoint_SetMotorSpeed_def
        b2WheelJoint_SetMaxMotorTorque_def
      elim!: and_then_InrE dest!: SetTunable_calls WakeBodies_calls)

text \<open>C6 (amended), at a fresh car spawned into the empty world, speed 35 and torque 10.\<close>

theorem C6_wake_calls_witness:
  "\<exists>car w w1 w2.
      Car_Spawn Car_Car empty_world (b2Vec2 0 0) 1 5 0.7 2.5 0 = Inr (car, w)
    \<and> Car_SetSpeed car w 35 = Inr (car, w1)
    \<and> calls w1 = calls w @ [SetTunable (m_rearAxleId car) MotorSpeed 35,
                            SetTunable (m_frontAxleId car) MotorSpeed 35,
                            WakeBodies (m_rearAxleId car)]
    \<and> Car_SetTorque car w 10 = Inr (car, w2)
    \<and> calls w2 = calls w @ [SetTunable (m_rearAxleId car) MaxMotorTorque 10,
                            SetTunable (m_frontAxleId car) MaxMotorTorque 10]"
proof -
  from fresh_car_spawns obtain car w
    where run: "Car_Spawn Car_Car empty_world (b2Vec2 0 0) 1 5 0.7 2.5 0 = Inr (car, w)" by blast
  from Spawn_axles[OF run] SetSpeed_succeeds[of w car _ _ 35]
  obtain w1 where s1: "Car_SetSpeed car w 35 = Inr (car, w1)" by blast
  from Spawn_axles[OF run] SetTorque_succeeds[of w car _ _ 10]
  obtain w2 where s2: "Car_SetTorque car w 10 = Inr (car, w2)" by blast
  from C6_wake_calls[of car w 35 car w1 10 car w2] run s1 s2 show ?thesis by blast
qed

section \<open>Setters and warm-start impulses\<close>



text \<open>
  The four setters of the car call only such setters and \<open>b2Joint_WakeBodies\<close>, so they
  leave the accumulated impulses of every joint of the world as they were.
\<close>

lemma SetTunable_impulses:
  "b2Joint_SetTunable ty tn w jointId v = Inr w' \<Longrightarrow>
     map_option joint_impulses (joints w' k) = map_option joint_impulses (joints w k)"
  by (auto simp add: b2Joint_SetTunable_def joint_impulses_def split: option.splits if_splits)

lemma WakeBodies_impulses:
  "b2Joint_WakeBodies w jointId = Inr w' \<Longrightarrow>
     map_option joint_impulses (joints w' k) = map_option joint_impulses (joints w k)"
  by (auto simp add: b2Joint_WakeBodies_def split: option.splits)

lemma Car_setters_keep_impulses:
  "Car_SetSpeed car w v = Inr (car', w') \<Longrightarrow>
     map_option joint_impulses (joints w' k) = map_option joint_impulses (joints w k)"
  "Car_SetTorque car w v = Inr (car', w') \<Longrightarrow>
     map_option joint_impulses (joints w' k) = map_option joint_impulses (joints w k)"
  "Car_SetHertz car w v = Inr (car', w') \<Longrightarrow>
     map_option joint_impulses (joints w' k) = map_option joint_impulses (joints w k)"
  "Car_SetDampingRadio car w v = Inr (car', w') \<Longrightarrow>
     map_option joint_impulses (joints w' k) = map_option joint_impulses (joints w k)"
  by (auto simp add: Car_SetSpeed_def Car_SetTorque_def Car_SetHertz_def Car_SetDampingRadio_def
        b2WheelJoint_SetMotorSpeed_def b2WheelJoint_SetMaxMotorTorque_def
        b2WheelJoint_SetSpringHertz_def b2WheelJoint_SetSpringDampingRatio_def
      elim!: and_then_InrE dest!: SetTunable_impulses[where k = k] WakeBodies_impulses[where k = k])

section \<open>Limit bounds at creation\<close>

text \<open>
  C3. Creating a joint from a definition with a limit (distance, prismatic, revolute or
  wheel) whose bodies are live and distinct and whose hertz, damping ratio and maximum
  motor force or torque are non-negative never fails, whatever the order of the two
  bounds; the stored joint has \<open>lower \<le> upper\<close>. For a prismatic, revolute or wheel
  joint the stored bounds are the smaller and the larger of the two given (inverted bounds
  are swapped); for a distance joint they are in addition clamped to the positive minimum
  length.
\<close>

theorem C3_created_limits_ordered:
  assumes "jointDef_bodyIdA def \<noteq> jointDef_bodyIdB def"
    and "bodies w (jointDef_bodyIdA def) \<noteq> None"
    and "bodies w (jointDef_bodyIdB def) \<noteq> None"
    and "jointDef_nonneg def"
    and "jointDef_limits def = Some (lower, upper)"
  shows "\<exists>jointId w' j lo hi.
       b2CreateJoint w def = Inr (jointId, w')
     \<and> joints w' jointId = Some j
     \<and> jointDef_type (jointDef j) = jointDef_type def
     \<and> jointDef_limits (jointDef j) = Some (lo, hi)
     \<and> lo \<le> hi
     \<and> (lo, hi) =
         (if jointDef_type def = b2_distanceJoint
          then (max (linearSlop w) (min lower upper), max (linearSlop w) (max lower upper))
          else (min lower upper, max lower upper))"
  using assms
  by (cases "def") (auto simp add: b2CreateJoint_def swap_inverted_def Let_def)

text \<open>C3, at a prismatic definition with \<open>lowerTranslation = 2\<close> and \<open>upperTranslation = -1\<close>.\<close>

theorem C3_created_limits_ordered_witness:
  "\<exists>jointId w' j.
       b2CreatePrismaticJoint two_body_world inverted_prismatic_def = Inr (jointId, w')
     \<and> joints w' jointId = Some j
     \<and> jointDef_limits (PrismaticDef inverted_prismatic_def) = Some (2, -1)
     \<and> jointDef_limits (jointDef j) = Some (-1, 2)"
proof -
  have "jointDef_bodyIdA (PrismaticDef inverted_prismatic_def)
          \<noteq> jointDef_bodyIdB (PrismaticDef inverted_prismatic_def)"
    and "bodies two_body_world (jointDef_bodyIdA (PrismaticDef inverted_prismatic_def)) \<noteq> None"
    and "bodies two_body_world (jointDef_bodyIdB (PrismaticDef inverted_prismatic_def)) \<noteq> None"
    and "jointDef_nonneg (PrismaticDef inverted_prismatic_def)"
    and "jointDef_limits (PrismaticDef inverted_prismatic_def) = Some (2, -1)"
    by (simp_all add: inverted_prismatic_def_def two_body_world_def empty_world_def b2CreateBody_def
          Let_def numeral_2_eq_2)
  from C3_created_limits_ordered[OF this] show ?thesis
    by (auto simp add: b2CreatePrismaticJoint_def inverted_prismatic_def_def)
qed

section \<open>The motor impulse of one step\<close>










end
